theory Spec2Isabelle
  imports Main "HOL-Library.Word" "HOL-Library.Finite_Map"
begin

section \<open>Data model of the blog store (main.go)\<close>

text \<open>
  Go's \<^verbatim>\<open>int\<close> is taken at its 64-bit width: \<open>+\<close> wraps, \<open>sint\<close> reads the signed
  value. A \<^verbatim>\<open>time.Time\<close> is the instant it denotes, counted in nanoseconds from
  0001-01-01T00:00:00Z, Go's zero time, with the offset of its zone in minutes east of UTC,
  which is what RFC 3339 writes of a zone; the monotonic reading and the name of the
  location, which JSON does not carry, are left out. A \<^verbatim>\<open>[]string\<close> is a list, so a nil
  and an empty slice are the same value; a \<^verbatim>\<open>string\<close> is its text.
\<close>

type_synonym go_int = "64 word"

record time =
  instant :: int
  zone :: int

text \<open>The zero value \<^verbatim>\<open>time.Time{}\<close>, and the instant \<open>i\<close> in UTC.\<close>

definition zero_Time :: time where
  "zero_Time = \<lparr>instant = 0, zone = 0\<rparr>"

definition utc :: "int \<Rightarrow> time" where
  "utc i = \<lparr>instant = i, zone = 0\<rparr>"

record Blog =
  ID :: go_int
  Title :: string
  AuthorID :: go_int
  Content :: string
  Tags :: "string list"
  CreatedTime :: time
  UpdatedTime :: time
  IsPublished :: bool
  ViewCount :: go_int

record ApiResponse =
  Success :: bool
  Message :: string
  Data :: "Blog option"
  Error :: string
  StatusCode :: nat

subsection \<open>Package time\<close>

text \<open>\<^verbatim>\<open>IsZero\<close> asks for the zero instant, in whatever zone.\<close>

definition IsZero :: "time \<Rightarrow> bool" where
  "IsZero t = (instant t = 0)"

text \<open>Seconds between 0001-01-01 and the Unix epoch, Go's \<^verbatim>\<open>unixToInternal\<close>.\<close>

definition unixToInternal :: int where
  "unixToInternal = 62135596800"

definition Unix :: "time \<Rightarrow> int" where
  "Unix t = instant t div 1000000000 - unixToInternal"

text \<open>
  \<^verbatim>\<open>Time.MarshalJSON\<close> refuses a year outside 0..9999, the year being read in the zone
  of the value. Year 0 starts 366 days before 0001-01-01T00:00:00 and year 10000 starts
  3652059 days after it, on the clock of that zone.
\<close>

definition nanosPerDay :: int where
  "nanosPerDay = 86400 * 1000000000"

definition nanosPerMinute :: int where
  "nanosPerMinute = 60 * 1000000000"

definition local_nanos :: "time \<Rightarrow> int" where
  "local_nanos t = instant t + zone t * nanosPerMinute"

definition year_in_range :: "time \<Rightarrow> bool" where
  "year_in_range t =
     (- 366 * nanosPerDay \<le> local_nanos t \<and> local_nanos t < 3652059 * nanosPerDay)"

subsection \<open>Package encoding/json\<close>

text \<open>
  Bytes are read at the level \<^verbatim>\<open>json.Unmarshal\<close> into a \<^verbatim>\<open>Blog\<close> reads them. A JSON
  object gives, for each field of the struct, the member \<^verbatim>\<open>json.Unmarshal\<close> matches to it
  (the key of the field's tag, compared without regard to case, the last one when it is
  repeated): no value (no such key, or null), a value the field can hold, or a value of
  the wrong type; other keys are ignored. A timestamp is the time its RFC 3339 text
  denotes. The literal \<^verbatim>\<open>null\<close> is \<open>Null\<close>, any other JSON value that is not an object
  is \<open>OtherValue\<close>, and bytes that are not JSON are \<open>Garbage\<close>.
\<close>

datatype 'a member = Absent | Present 'a | WrongType

record json_object =
  json_id :: "go_int member"
  json_title :: "string member"
  json_author_id :: "go_int member"
  json_content :: "string member"
  json_tags :: "string list member"
  json_created_at :: "time member"
  json_updated_at :: "time member"
  json_is_published :: "bool member"
  json_view_count :: "go_int member"

datatype bytes = Object json_object | Null | OtherValue | Garbage

datatype json_error = YearOutOfRange | SyntaxError | TypeError

text \<open>The tag option \<^verbatim>\<open>omitempty\<close>: a zero value is left out.\<close>

definition omitempty :: "'a \<Rightarrow> 'a \<Rightarrow> 'a member" where
  "omitempty zero v = (if v = zero then Absent else Present v)"

text \<open>
  The object \<^verbatim>\<open>json.MarshalIndent\<close> writes for a record, by the tags of the struct:
  \<^verbatim>\<open>tags\<close> and \<^verbatim>\<open>view_count\<close> carry \<^verbatim>\<open>omitempty\<close>, the other keys are always written.
\<close>

definition encode_Blog :: "Blog \<Rightarrow> json_object" where
  "encode_Blog b =
     \<lparr>json_id = Present (ID b),
      json_title = Present (Title b),
      json_author_id = Present (AuthorID b),
      json_content = Present (Content b),
      json_tags = omitempty [] (Tags b),
      json_created_at = Present (CreatedTime b),
      json_updated_at = Present (UpdatedTime b),
      json_is_published = Present (IsPublished b),
      json_view_count = omitempty 0 (ViewCount b)\<rparr>"

definition JSON :: "Blog \<Rightarrow> bytes" where
  "JSON b = Object (encode_Blog b)"

definition json_MarshalIndent :: "Blog \<Rightarrow> json_error + bytes" where
  "json_MarshalIndent b =
     (if year_in_range (CreatedTime b) \<and> year_in_range (UpdatedTime b)
      then Inr (JSON b) else Inl YearOutOfRange)"

text \<open>A key without a value leaves the field of the zero-valued target as it is.\<close>

fun member_or :: "'a \<Rightarrow> 'a member \<Rightarrow> 'a" where
  "member_or zero (Present v) = v"
| "member_or zero Absent = zero"
| "member_or zero WrongType = zero"

definition well_typed :: "json_object \<Rightarrow> bool" where
  "well_typed obj =
     (json_id obj \<noteq> WrongType \<and> json_title obj \<noteq> WrongType \<and>
      json_author_id obj \<noteq> WrongType \<and> json_content obj \<noteq> WrongType \<and>
      json_tags obj \<noteq> WrongType \<and> json_created_at obj \<noteq> WrongType \<and>
      json_updated_at obj \<noteq> WrongType \<and> json_is_published obj \<noteq> WrongType \<and>
      json_view_count obj \<noteq> WrongType)"

definition decode_Blog :: "json_object \<Rightarrow> Blog" where
  "decode_Blog obj =
     \<lparr>ID = member_or 0 (json_id obj),
      Title = member_or [] (json_title obj),
      AuthorID = member_or 0 (json_author_id obj),
      Content = member_or [] (json_content obj),
      Tags = member_or [] (json_tags obj),
      CreatedTime = member_or zero_Time (json_created_at obj),
      UpdatedTime = member_or zero_Time (json_updated_at obj),
      IsPublished = member_or False (json_is_published obj),
      ViewCount = member_or 0 (json_view_count obj)\<rparr>"

text \<open>The zero value of the struct.\<close>

definition zero_Blog :: Blog where
  "zero_Blog =
     \<lparr>ID = 0, Title = [], AuthorID = 0, Content = [], Tags = [], CreatedTime = zero_Time,
      UpdatedTime = zero_Time, IsPublished = False, ViewCount = 0\<rparr>"

text \<open>
  \<^verbatim>\<open>json.Unmarshal(data, &blog)\<close> into a zero-valued \<^verbatim>\<open>blog\<close>: \<^verbatim>\<open>null\<close> is no error and
  leaves the target as it is.
\<close>

fun json_Unmarshal :: "bytes \<Rightarrow> json_error + Blog" where
  "json_Unmarshal (Object obj) =
     (if well_typed obj then Inr (decode_Blog obj) else Inl TypeError)"
| "json_Unmarshal Null = Inr zero_Blog"
| "json_Unmarshal OtherValue = Inl TypeError"
| "json_Unmarshal Garbage = Inl SyntaxError"

subsection \<open>The operating system: clock, storage directory, log\<close>

datatype os_error = ErrNotExist | ErrPermission | ErrIO

text \<open>
  What goes wrong at a system call: nothing, a refusal before anything is touched, or a
  failure part-way (for a write: after the file was truncated).
\<close>

datatype fault = NoFault | Denied | Interrupted

datatype error =
    MarshalFailed json_error
  | WriteFailed os_error
  | ReadFailed os_error
  | UnmarshalFailed json_error

datatype log_entry =
    LogViewCountFailed error
  | LogReadDirFailed os_error

text \<open>
  The world a handler runs in: the entries of \<^verbatim>\<open>data/blogs\<close> by name, the number of
  system calls made so far, what the wall clock reads and what goes wrong at the n-th
  call, and the log. Requests are handled one at a time.
\<close>

record world =
  files :: "(string, bytes) fmap"
  steps :: nat
  wall :: "nat \<Rightarrow> time"
  faults :: "nat \<Rightarrow> fault"
  logs :: "log_entry list"

definition tick :: "world \<Rightarrow> world" where
  "tick w = w\<lparr>steps := Suc (steps w)\<rparr>"

definition time_Now :: "world \<Rightarrow> time \<times> world" where
  "time_Now w = (wall w (steps w), tick w)"

definition fault_error :: "fault \<Rightarrow> os_error" where
  "fault_error f = (case f of Interrupted \<Rightarrow> ErrIO | _ \<Rightarrow> ErrPermission)"

definition os_WriteFile :: "world \<Rightarrow> string \<Rightarrow> bytes \<Rightarrow> os_error option \<times> world" where
  "os_WriteFile w name d =
     (case faults w (steps w) of
        NoFault \<Rightarrow> (None, tick (w\<lparr>files := fmupd name d (files w)\<rparr>))
      | Denied \<Rightarrow> (Some ErrPermission, tick w)
      | Interrupted \<Rightarrow> (Some ErrIO, tick (w\<lparr>files := fmupd name Garbage (files w)\<rparr>)))"

definition os_ReadFile :: "world \<Rightarrow> string \<Rightarrow> (os_error + bytes) \<times> world" where
  "os_ReadFile w name =
     (case faults w (steps w) of
        NoFault \<Rightarrow>
          (case fmlookup (files w) name of
             None \<Rightarrow> (Inl ErrNotExist, tick w)
           | Some d \<Rightarrow> (Inr d, tick w))
      | f \<Rightarrow> (Inl (fault_error f), tick w))"

text \<open>Of the listing \<^verbatim>\<open>os.ReadDir\<close> returns, the program reads the length only.\<close>

definition os_ReadDir :: "world \<Rightarrow> (os_error + nat) \<times> world" where
  "os_ReadDir w =
     (case faults w (steps w) of
        NoFault \<Rightarrow> (Inr (fcard (fmdom (files w))), tick w)
      | f \<Rightarrow> (Inl (fault_error f), tick w))"

definition log_Printf :: "world \<Rightarrow> log_entry \<Rightarrow> world" where
  "log_Printf w e = w\<lparr>logs := logs w @ [e]\<rparr>"

subsection \<open>File names\<close>

text \<open>The decimal digit of a number below ten.\<close>

definition digit_char :: "nat \<Rightarrow> char" where
  "digit_char d = ''0123456789'' ! d"

function nat_dec :: "nat \<Rightarrow> string" where
  "nat_dec n = (if n < 10 then [digit_char n] else nat_dec (n div 10) @ [digit_char (n mod 10)])"
  by pat_completeness auto
termination
  by (relation "measure id") auto

text \<open>\<^verbatim>\<open>fmt.Sprintf("%d", i)\<close>.\<close>

definition Sprintf_d :: "go_int \<Rightarrow> string" where
  "Sprintf_d i =
     (if sint i < 0 then CHR ''-'' # nat_dec (nat (- sint i)) else nat_dec (nat (sint i)))"

text \<open>
  \<^verbatim>\<open>filepath.Join(blogDir, fmt.Sprintf("%d.json", id))\<close>: the name has no separator, so
  the path is the entry of that name in \<^verbatim>\<open>data/blogs\<close>.
\<close>

definition filename :: "go_int \<Rightarrow> string" where
  "filename i = Sprintf_d i @ ''.json''"

section \<open>The record store\<close>

text \<open>
  \<^verbatim>\<open>func (b *Blog) Save() error\<close>. The receiver is a pointer: the record as \<open>Save\<close>
  leaves it is returned with the error, also when \<open>Save\<close> fails.
\<close>

definition Save :: "world \<Rightarrow> Blog \<Rightarrow> error option \<times> Blog \<times> world" where
  "Save w b =
     (let (b1, w1) =
            (if IsZero (CreatedTime b)
             then (let (t, w') = time_Now w in (b\<lparr>CreatedTime := t\<rparr>, w'))
             else (b, w));
          (t2, w2) = time_Now w1;
          b2 = b1\<lparr>UpdatedTime := t2\<rparr>
      in case json_MarshalIndent b2 of
           Inl e \<Rightarrow> (Some (MarshalFailed e), b2, w2)
         | Inr d \<Rightarrow>
             (case os_WriteFile w2 (filename (ID b2)) d of
                (Some e, w3) \<Rightarrow> (Some (WriteFailed e), b2, w3)
              | (None, w3) \<Rightarrow> (None, b2, w3)))"

definition LoadBlog :: "world \<Rightarrow> go_int \<Rightarrow> (error + Blog) \<times> world" where
  "LoadBlog w i =
     (case os_ReadFile w (filename i) of
        (Inl e, w1) \<Rightarrow> (Inl (ReadFailed e), w1)
      | (Inr d, w1) \<Rightarrow>
          (case json_Unmarshal d of
             Inl e \<Rightarrow> (Inl (UnmarshalFailed e), w1)
           | Inr blog \<Rightarrow> (Inr blog, w1)))"

section \<open>The identifier allocator\<close>

definition generateNewBlogID :: "world \<Rightarrow> go_int \<times> world" where
  "generateNewBlogID w =
     (case os_ReadDir w of
        (Inl e, w1) \<Rightarrow>
          (let w2 = log_Printf w1 (LogReadDirFailed e);
               (t, w3) = time_Now w2
           in (word_of_int (Unix t), w3))
      | (Inr n, w1) \<Rightarrow> (word_of_nat n + 1, w1))"

section \<open>The request handlers\<close>

text \<open>
  Of a request the handlers read the method, the path and the body; a body that cannot be
  read is \<open>None\<close>. A response is the envelope handed to \<^verbatim>\<open>sendResponse\<close> with its
  status code; its encoding onto the connection is not modelled.
\<close>

record request =
  Method :: string
  Path :: string
  Body :: "bytes option"

definition sendResponse :: "bool \<Rightarrow> string \<Rightarrow> Blog option \<Rightarrow> string \<Rightarrow> nat \<Rightarrow> ApiResponse" where
  "sendResponse success message data errMsg statusCode =
     \<lparr>Success = success, Message = message, Data = data, Error = errMsg,
      StatusCode = statusCode\<rparr>"

definition StatusOK :: nat where "StatusOK = 200"
definition StatusBadRequest :: nat where "StatusBadRequest = 400"
definition StatusNotFound :: nat where "StatusNotFound = 404"
definition StatusMethodNotAllowed :: nat where "StatusMethodNotAllowed = 405"
definition StatusInternalServerError :: nat where "StatusInternalServerError = 500"

definition is_digit :: "char \<Rightarrow> bool" where
  "is_digit c = (c \<in> set ''0123456789'')"

definition digit_val :: "char \<Rightarrow> nat" where
  "digit_val c = of_char c - 48"

text \<open>
  \<^verbatim>\<open>blogIDPath.FindStringSubmatch\<close> for the pattern \<^verbatim>\<open>^/api/blogs/([0-9]+)$\<close>: the
  text of the group, when the path matches.
\<close>

definition blogIDPath :: "string \<Rightarrow> string option" where
  "blogIDPath p =
     (let pre = ''/api/blogs/''; ds = drop (length pre) p
      in if take (length pre) p = pre \<and> ds \<noteq> [] \<and> list_all is_digit ds
         then Some ds else None)"

text \<open>
  \<^verbatim>\<open>strconv.Atoi\<close> on an unsigned digit string, which is all the pattern lets through:
  a value beyond the largest \<^verbatim>\<open>int\<close> is an error.
\<close>

definition strconv_Atoi :: "string \<Rightarrow> go_int option" where
  "strconv_Atoi ds =
     (let n = foldl (\<lambda>a c. 10 * a + digit_val c) 0 ds
      in if ds \<noteq> [] \<and> list_all is_digit ds \<and> n < 2 ^ 63
         then Some (word_of_nat n) else None)"

definition getBlogID :: "request \<Rightarrow> string + go_int" where
  "getBlogID r =
     (case blogIDPath (Path r) of
        None \<Rightarrow> Inl ''invalid blog ID path''
      | Some ds \<Rightarrow>
          (case strconv_Atoi ds of
             None \<Rightarrow> Inl ''invalid blog ID format''
           | Some i \<Rightarrow> Inr i))"

definition getBlogHandler :: "world \<Rightarrow> request \<Rightarrow> ApiResponse \<times> world" where
  "getBlogHandler w r =
     (case getBlogID r of
        Inl msg \<Rightarrow> (sendResponse False [] None msg StatusBadRequest, w)
      | Inr i \<Rightarrow>
          (case LoadBlog w i of
             (Inl e, w1) \<Rightarrow> (sendResponse False [] None ''Blog not found'' StatusNotFound, w1)
           | (Inr blog, w1) \<Rightarrow>
               (let blog1 = blog\<lparr>ViewCount := ViewCount blog + 1\<rparr>;
                    (err, blog2, w2) = Save w1 blog1;
                    w3 = (case err of
                            Some e \<Rightarrow> log_Printf w2 (LogViewCountFailed e)
                          | None \<Rightarrow> w2)
                in (sendResponse True ''Blog retrieved successfully'' (Some blog2) [] StatusOK,
                    w3))))"

definition saveBlogHandler :: "world \<Rightarrow> request \<Rightarrow> ApiResponse \<times> world" where
  "saveBlogHandler w r =
     (case Body r of
        None \<Rightarrow> (sendResponse False [] None ''Failed to read request body'' StatusBadRequest, w)
      | Some body \<Rightarrow>
          (case json_Unmarshal body of
             Inl e \<Rightarrow> (sendResponse False [] None ''Invalid JSON format'' StatusBadRequest, w)
           | Inr blog \<Rightarrow>
               if Title blog = [] then
                 (sendResponse False [] None ''Title is required'' StatusBadRequest, w)
               else if Content blog = [] then
                 (sendResponse False [] None ''Content is required'' StatusBadRequest, w)
               else
                 (case (if Method r = ''PUT'' then
                          (case getBlogID r of
                             Inl msg \<Rightarrow> Inl (sendResponse False [] None msg StatusBadRequest)
                           | Inr i \<Rightarrow>
                               if ID blog \<noteq> i
                               then Inl (sendResponse False [] None ''Blog ID mismatch''
                                           StatusBadRequest)
                               else Inr (blog, w))
                        else (let (i, w1) = generateNewBlogID w in Inr (blog\<lparr>ID := i\<rparr>, w1)))
                  of
                    Inl resp \<Rightarrow> (resp, w)
                  | Inr (blog1, w1) \<Rightarrow>
                      (case Save w1 blog1 of
                         (Some e, blog2, w2) \<Rightarrow>
                           (sendResponse False [] None ''Failed to save blog''
                              StatusInternalServerError, w2)
                       | (None, blog2, w2) \<Rightarrow>
                           (sendResponse True ''Blog saved successfully'' (Some blog2) []
                              StatusOK, w2)))))"

text \<open>The dispatch on the method that \<^verbatim>\<open>main\<close> registers for \<^verbatim>\<open>/api/blogs/\<close>.\<close>

definition serve :: "world \<Rightarrow> request \<Rightarrow> ApiResponse \<times> world" where
  "serve w r =
     (if Method r = ''GET'' then getBlogHandler w r
      else if Method r = ''POST'' \<or> Method r = ''PUT'' then saveBlogHandler w r
      else (sendResponse False [] None ''Method not allowed'' StatusMethodNotAllowed, w))"

section \<open>Repeated saves of one record\<close>



section \<open>Sample worlds, records and requests\<close>

text \<open>
  A clock started on 2020-01-02, an hour east of UTC, that advances a microsecond at every
  system call; and the same clock set back a second after its third reading.
\<close>

definition ex_clock :: "nat \<Rightarrow> time" where
  "ex_clock n = \<lparr>instant = 63713523600000000000 + 1000 * int n, zone = 60\<rparr>"

definition ex_clock_back :: "nat \<Rightarrow> time" where
  "ex_clock_back n =
     \<lparr>instant = (if n < 3 then 63713523600000000000 else 63713523599000000000) + 1000 * int n,
      zone = 60\<rparr>"

definition ex_world :: "(string, bytes) fmap \<Rightarrow> (nat \<Rightarrow> fault) \<Rightarrow> world" where
  "ex_world fs flt = \<lparr>files = fs, steps = 0, wall = ex_clock, faults = flt, logs = []\<rparr>"

definition no_faults :: "nat \<Rightarrow> fault" where
  "no_faults n = NoFault"

definition fault_at :: "nat \<Rightarrow> fault \<Rightarrow> nat \<Rightarrow> fault" where
  "fault_at k f n = (if n = k then f else NoFault)"

definition ex_blog :: "go_int \<Rightarrow> int \<Rightarrow> Blog" where
  "ex_blog i c =
     \<lparr>ID = i, Title = ''A'', AuthorID = 3, Content = ''B'', Tags = [''go''],
      CreatedTime = utc c, UpdatedTime = zero_Time, IsPublished = True, ViewCount = 0\<rparr>"

definition ex_request :: "string \<Rightarrow> string \<Rightarrow> bytes option \<Rightarrow> request" where
  "ex_request m p body = \<lparr>Method = m, Path = p, Body = body\<rparr>"

declare nat_dec.simps [simp del]

section \<open>Facts about the store and the handlers\<close>

lemma Save_blog:
  "fst (snd (Save w b)) =
     b\<lparr>CreatedTime := (if IsZero (CreatedTime b) then wall w (steps w) else CreatedTime b),
       UpdatedTime := wall w (if IsZero (CreatedTime b) then Suc (steps w) else steps w)\<rparr>"
  by (simp add: Save_def time_Now_def tick_def Let_def split: sum.splits prod.splits option.splits)

lemma Save_ID: "ID (fst (snd (Save w b))) = ID b"
  by (simp add: Save_blog)


lemma Save_faults: "faults (snd (snd (Save w b))) = faults w"
  by (simp add: Save_def time_Now_def tick_def os_WriteFile_def Let_def
      split: sum.splits prod.splits option.splits fault.splits)

lemma Save_logs: "logs (snd (snd (Save w b))) = logs w"
  by (simp add: Save_def time_Now_def tick_def os_WriteFile_def Let_def
      split: sum.splits prod.splits option.splits fault.splits)


lemma Save_ok_files:
  "fst (Save w b) = None \<Longrightarrow>
     files (snd (snd (Save w b))) = fmupd (filename (ID b)) (JSON (fst (snd (Save w b)))) (files w)"
  by (auto simp add: Save_def time_Now_def tick_def os_WriteFile_def Let_def json_MarshalIndent_def
      split: sum.splits prod.splits option.splits fault.splits if_splits)

lemma Save_ok_iff:
  "fst (Save w b) = None \<longleftrightarrow>
     year_in_range (CreatedTime (fst (snd (Save w b)))) \<and>
     year_in_range (UpdatedTime (fst (snd (Save w b)))) \<and>
     faults w (if IsZero (CreatedTime b) then Suc (Suc (steps w)) else Suc (steps w)) = NoFault"
  by (auto simp add: Save_def time_Now_def tick_def os_WriteFile_def Let_def json_MarshalIndent_def
      split: sum.splits prod.splits option.splits fault.splits if_splits)

lemma LoadBlog_world: "snd (LoadBlog w i) = tick w"
  by (simp add: LoadBlog_def os_ReadFile_def split: sum.splits prod.splits option.splits fault.splits)

lemma json_Unmarshal_JSON [simp]: "json_Unmarshal (JSON b) = Inr b"
  by (simp add: JSON_def encode_Blog_def decode_Blog_def well_typed_def omitempty_def)

lemma LoadBlog_result:
  "fst (LoadBlog w i) =
     (case faults w (steps w) of
        NoFault \<Rightarrow>
          (case fmlookup (files w) (filename i) of
             None \<Rightarrow> Inl (ReadFailed ErrNotExist)
           | Some d \<Rightarrow>
               (case json_Unmarshal d of
                  Inl e \<Rightarrow> Inl (UnmarshalFailed e)
                | Inr b \<Rightarrow> Inr b))
      | f \<Rightarrow> Inl (ReadFailed (fault_error f)))"
proof (cases "faults w (steps w)")
  case NoFault
  show ?thesis
  proof (cases "fmlookup (files w) (filename i)")
    case None
    with NoFault show ?thesis
      by (simp add: LoadBlog_def os_ReadFile_def)
  next
    case (Some d)
    with NoFault show ?thesis
      by (cases "json_Unmarshal d") (simp_all add: LoadBlog_def os_ReadFile_def)
  qed
next
  case Denied
  then show ?thesis
    by (simp add: LoadBlog_def os_ReadFile_def)
next
  case Interrupted
  then show ?thesis
    by (simp add: LoadBlog_def os_ReadFile_def)
qed

lemma sint_word_of_int_64:
  "- (2 ^ 63) \<le> k \<Longrightarrow> k < 2 ^ 63 \<Longrightarrow> sint (word_of_int k :: go_int) = k"
  by (simp add: sint_sbintrunc' signed_take_bit_int_eq_self)

lemma sint_count_succ:
  assumes "n < 2 ^ 63 - 1"
  shows "sint (word_of_nat n + 1 :: go_int) = int n + 1"
proof -
  have "(word_of_nat n + 1 :: go_int) = word_of_int (int n + 1)"
    by simp
  moreover have "int n + 1 < 2 ^ 63"
    using assms by simp
  moreover have "- (2 ^ 63) \<le> int n + 1"
    by (smt (verit) of_nat_0_le_iff zero_le_power)
  ultimately show ?thesis
    using sint_word_of_int_64 by presburger
qed

lemma sint_succ_64:
  assumes "sint (x :: go_int) < 2 ^ 63 - 1"
  shows "sint (x + 1) = sint x + 1"
proof -
  have "x + 1 = word_of_int (sint x + 1)"
    by simp
  moreover have "- (2 ^ 63) \<le> sint x"
    using sint_ge [of x] by simp
  ultimately show ?thesis
    using assms sint_word_of_int_64 [of "sint x + 1"] by simp
qed

lemma generateNewBlogID_files: "files (snd (generateNewBlogID w)) = files w"
  by (auto simp add: generateNewBlogID_def os_ReadDir_def time_Now_def log_Printf_def tick_def Let_def 
        split: prod.splits sum.splits fault.splits)

lemma getBlogHandler_failed:
  assumes "getBlogID r = Inr i" and "fst (LoadBlog w i) = Inl e"
  shows "getBlogHandler w r =
           (sendResponse False [] None ''Blog not found'' StatusNotFound, tick w)"
proof -
  have "LoadBlog w i = (Inl e, tick w)"
    using assms(2) LoadBlog_world [of w i] by (simp add: prod_eq_iff)
  then show ?thesis
    by (simp add: getBlogHandler_def assms(1))
qed

lemma getBlogHandler_loaded:
  assumes "getBlogID r = Inr i" and "LoadBlog w i = (Inr blog, w1)"
    and "Save w1 (blog\<lparr>ViewCount := ViewCount blog + 1\<rparr>) = (err, blog2, w2)"
  shows "getBlogHandler w r =
           (sendResponse True ''Blog retrieved successfully'' (Some blog2) [] StatusOK,
            (case err of Some e \<Rightarrow> log_Printf w2 (LogViewCountFailed e) | None \<Rightarrow> w2))"
  by (simp add: getBlogHandler_def assms Let_def)

lemma saveBlogHandler_create:
  assumes "Method r \<noteq> ''PUT''" and "Body r = Some body" and "json_Unmarshal body = Inr blog"
    and "Title blog \<noteq> []" and "Content blog \<noteq> []"
  shows "saveBlogHandler w r =
           (case Save (snd (generateNewBlogID w)) (blog\<lparr>ID := fst (generateNewBlogID w)\<rparr>) of
              (Some e, blog2, w2) \<Rightarrow>
                (sendResponse False [] None ''Failed to save blog'' StatusInternalServerError, w2)
            | (None, blog2, w2) \<Rightarrow>
                (sendResponse True ''Blog saved successfully'' (Some blog2) [] StatusOK, w2))"
proof -
  obtain i w1 where g: "generateNewBlogID w = (i, w1)"
    by (cases "generateNewBlogID w") auto
  show ?thesis
    using assms by (simp add: saveBlogHandler_def g)
qed

lemma saveBlogHandler_update:
  assumes "Method r = ''PUT''" and "Body r = Some body" and "json_Unmarshal body = Inr blog"
    and "Title blog \<noteq> []" and "Content blog \<noteq> []" and "getBlogID r = Inr (ID blog)"
  shows "saveBlogHandler w r =
           (case Save w blog of
              (Some e, blog2, w2) \<Rightarrow>
                (sendResponse False [] None ''Failed to save blog'' StatusInternalServerError, w2)
            | (None, blog2, w2) \<Rightarrow>
                (sendResponse True ''Blog saved successfully'' (Some blog2) [] StatusOK, w2))"
  using assms by (simp add: saveBlogHandler_def)






subsection \<open>Unfolding the model on sample inputs\<close>

lemmas eval_defs = Save_def LoadBlog_def time_Now_def tick_def os_WriteFile_def os_ReadFile_def
  os_ReadDir_def log_Printf_def fault_error_def IsZero_def json_MarshalIndent_def
  year_in_range_def local_nanos_def nanosPerDay_def nanosPerMinute_def Unix_def unixToInternal_def
  utc_def zero_Time_def filename_def Sprintf_d_def
  nat_dec.simps digit_char_def ex_clock_def ex_clock_back_def ex_world_def no_faults_def
  fault_at_def ex_blog_def
  ex_request_def Let_def

lemmas path_defs = getBlogID_def blogIDPath_def strconv_Atoi_def is_digit_def digit_val_def

section \<open>The claims\<close>

text \<open>
  Claim C1. \<open>Save\<close> stamps the record before it writes it. When created-at is zero on
  entry it becomes the clock's reading and updated-at the clock's next reading; otherwise
  created-at is kept and updated-at becomes the clock's reading. No other field changes.
  When \<open>Save\<close> returns no error, the entry named by the identifier holds the stamped
  record, in full; and it returns no error exactly when both stamps can be serialised and
  the write goes through.
\<close>

theorem Save_stamps_then_writes:
  assumes "Save w b = (err, b', w')"
  shows "(IsZero (CreatedTime b) \<longrightarrow>
            CreatedTime b' = fst (time_Now w) \<and>
            UpdatedTime b' = fst (time_Now (snd (time_Now w)))) \<and>
         (\<not> IsZero (CreatedTime b) \<longrightarrow>
            CreatedTime b' = CreatedTime b \<and> UpdatedTime b' = fst (time_Now w)) \<and>
         b' = b\<lparr>CreatedTime := CreatedTime b', UpdatedTime := UpdatedTime b'\<rparr> \<and>
         (err = None \<longrightarrow> files w' = fmupd (filename (ID b)) (JSON b') (files w)) \<and>
         (err = None \<longleftrightarrow>
            year_in_range (CreatedTime b') \<and> year_in_range (UpdatedTime b') \<and>
            faults w (if IsZero (CreatedTime b) then Suc (Suc (steps w)) else Suc (steps w)) = NoFault)"
proof -
  have b': "b' = fst (snd (Save w b))" and err: "err = fst (Save w b)"
    and w': "w' = snd (snd (Save w b))"
    using assms by simp_all
  have stamps: "b' = b\<lparr>CreatedTime := (if IsZero (CreatedTime b) then wall w (steps w) else CreatedTime b),
       UpdatedTime := wall w (if IsZero (CreatedTime b) then Suc (steps w) else steps w)\<rparr>"
    unfolding b' by (rule Save_blog)
  have 1: "IsZero (CreatedTime b) \<longrightarrow>
            CreatedTime b' = fst (time_Now w) \<and>
            UpdatedTime b' = fst (time_Now (snd (time_Now w)))"
    by (subst (1 2) stamps) (simp add: time_Now_def tick_def)
  have 2: "\<not> IsZero (CreatedTime b) \<longrightarrow>
            CreatedTime b' = CreatedTime b \<and> UpdatedTime b' = fst (time_Now w)"
    by (subst (1 2) stamps) (simp add: time_Now_def tick_def)
  have 3: "b' = b\<lparr>CreatedTime := CreatedTime b', UpdatedTime := UpdatedTime b'\<rparr>"
    by (subst (1 2 3) stamps) simp
  have 4: "err = None \<longrightarrow> files w' = fmupd (filename (ID b)) (JSON b') (files w)"
    unfolding err w' b' using Save_ok_files by blast
  have 5: "err = None \<longleftrightarrow>
            year_in_range (CreatedTime b') \<and> year_in_range (UpdatedTime b') \<and>
            faults w (if IsZero (CreatedTime b) then Suc (Suc (steps w)) else Suc (steps w)) = NoFault"
    unfolding err b' by (rule Save_ok_iff)
  from 1 2 3 4 5 show ?thesis by blast
qed

theorem Save_stamps_then_writes_witness:
  "Save (ex_world fmempty no_faults) (ex_blog 7 0) =
     (None, (ex_blog 7 0)\<lparr>CreatedTime := ex_clock 0, UpdatedTime := ex_clock 1\<rparr>,
      \<lparr>files = fmupd ''7.json'' (JSON ((ex_blog 7 0)\<lparr>CreatedTime := ex_clock 0, UpdatedTime := ex_clock 1\<rparr>)) fmempty,
       steps = 3, wall = ex_clock, faults = no_faults, logs = []\<rparr>) \<and>
   IsZero (CreatedTime (ex_blog 7 0)) \<and>
   fst (time_Now (ex_world fmempty no_faults)) = ex_clock 0 \<and>
   fst (time_Now (snd (time_Now (ex_world fmempty no_faults)))) = ex_clock 1 \<and>
   Save (ex_world fmempty (fault_at 1 Denied)) (ex_blog 7 5) =
     (Some (WriteFailed ErrPermission), (ex_blog 7 5)\<lparr>UpdatedTime := ex_clock 0\<rparr>,
      \<lparr>files = fmempty, steps = 2, wall = ex_clock, faults = fault_at 1 Denied, logs = []\<rparr>) \<and>
   \<not> IsZero (CreatedTime (ex_blog 7 5))"
proof -
  have h1: "Save (ex_world fmempty no_faults) (ex_blog 7 0) =
     (None, (ex_blog 7 0)\<lparr>CreatedTime := ex_clock 0, UpdatedTime := ex_clock 1\<rparr>,
      \<lparr>files = fmupd ''7.json'' (JSON ((ex_blog 7 0)\<lparr>CreatedTime := ex_clock 0, UpdatedTime := ex_clock 1\<rparr>)) fmempty,
       steps = 3, wall = ex_clock, faults = no_faults, logs = []\<rparr>)"
    by (simp add: eval_defs)
  have h2: "Save (ex_world fmempty (fault_at 1 Denied)) (ex_blog 7 5) =
     (Some (WriteFailed ErrPermission), (ex_blog 7 5)\<lparr>UpdatedTime := ex_clock 0\<rparr>,
      \<lparr>files = fmempty, steps = 2, wall = ex_clock, faults = fault_at 1 Denied, logs = []\<rparr>)"
    by (simp add: eval_defs)
  show ?thesis
    using h1 h2 Save_stamps_then_writes [OF h1] Save_stamps_then_writes [OF h2]
    by (simp add: IsZero_def ex_blog_def utc_def time_Now_def tick_def ex_world_def)
qed

text \<open>
  Claim C2. When the storage directory can be listed, \<open>generateNewBlogID\<close> returns the
  number of its entries plus one (as a signed value too, below the largest \<^verbatim>\<open>int\<close>) and
  logs nothing. When listing fails, it logs the failure and returns the clock's reading in
  seconds since the Unix epoch: the error is not handed to the caller. It never changes an
  entry.
\<close>

theorem generateNewBlogID_count_or_clock:
  "(\<forall>n. fst (os_ReadDir w) = Inr n \<longrightarrow>
        n = fcard (fmdom (files w)) \<and>
        fst (generateNewBlogID w) = word_of_nat n + 1 \<and>
        (n < 2 ^ 63 - 1 \<longrightarrow> sint (fst (generateNewBlogID w)) = int n + 1) \<and>
        logs (snd (generateNewBlogID w)) = logs w) \<and>
   (\<forall>e. fst (os_ReadDir w) = Inl e \<longrightarrow>
        fst (generateNewBlogID w) = word_of_int (Unix (fst (time_Now (snd (os_ReadDir w))))) \<and>
        (- (2 ^ 63) \<le> Unix (fst (time_Now (snd (os_ReadDir w)))) \<and>
           Unix (fst (time_Now (snd (os_ReadDir w)))) < 2 ^ 63 \<longrightarrow>
           sint (fst (generateNewBlogID w)) = Unix (fst (time_Now (snd (os_ReadDir w))))) \<and>
        logs (snd (generateNewBlogID w)) = logs w @ [LogReadDirFailed e]) \<and>
   files (snd (generateNewBlogID w)) = files w"
proof (intro conjI allI impI)
  fix n
  assume ok: "fst (os_ReadDir w) = Inr n"
  then show n: "n = fcard (fmdom (files w))"
    by (auto simp add: os_ReadDir_def split: fault.splits)
  from ok show g: "fst (generateNewBlogID w) = word_of_nat n + 1"
    by (cases "os_ReadDir w") (simp add: generateNewBlogID_def)
  from ok show "logs (snd (generateNewBlogID w)) = logs w"
    by (auto simp add: generateNewBlogID_def os_ReadDir_def tick_def split: prod.splits sum.splits fault.splits)
  assume "n < 2 ^ 63 - 1"
  then show "sint (fst (generateNewBlogID w)) = int n + 1"
    unfolding g by (rule sint_count_succ)
next
  fix e
  assume failed: "fst (os_ReadDir w) = Inl e"
  then show g: "fst (generateNewBlogID w) = word_of_int (Unix (fst (time_Now (snd (os_ReadDir w)))))"
    by (cases "os_ReadDir w") (simp add: generateNewBlogID_def time_Now_def log_Printf_def tick_def Let_def)
  from failed show "logs (snd (generateNewBlogID w)) = logs w @ [LogReadDirFailed e]"
    by (auto simp add: generateNewBlogID_def os_ReadDir_def time_Now_def log_Printf_def tick_def Let_def 
        split: prod.splits sum.splits fault.splits)
  assume "- (2 ^ 63) \<le> Unix (fst (time_Now (snd (os_ReadDir w)))) \<and>
           Unix (fst (time_Now (snd (os_ReadDir w)))) < 2 ^ 63"
  then show "sint (fst (generateNewBlogID w)) = Unix (fst (time_Now (snd (os_ReadDir w))))"
    unfolding g by (simp add: sint_word_of_int_64)
next
  show "files (snd (generateNewBlogID w)) = files w"
    by (auto simp add: generateNewBlogID_def os_ReadDir_def time_Now_def log_Printf_def tick_def Let_def 
        split: prod.splits sum.splits fault.splits)
qed

theorem generateNewBlogID_count_or_clock_witness:
  "fst (os_ReadDir (ex_world (fmupd ''1.json'' (JSON (ex_blog 1 5)) (fmupd ''2.json'' Garbage fmempty)) no_faults)) = Inr 2 \<and>
   fst (generateNewBlogID (ex_world (fmupd ''1.json'' (JSON (ex_blog 1 5)) (fmupd ''2.json'' Garbage fmempty)) no_faults)) = 3 \<and>
   fst (os_ReadDir (ex_world fmempty (fault_at 0 Denied))) = Inl ErrPermission \<and>
   fst (generateNewBlogID (ex_world fmempty (fault_at 0 Denied))) = 1577926800 \<and>
   logs (snd (generateNewBlogID (ex_world fmempty (fault_at 0 Denied)))) = [LogReadDirFailed ErrPermission]"
proof -
  let ?w = "ex_world (fmupd ''1.json'' (JSON (ex_blog 1 5)) (fmupd ''2.json'' Garbage fmempty)) no_faults"
  let ?v = "ex_world fmempty (fault_at 0 Denied)"
  have h1: "fst (os_ReadDir ?w) = Inr 2"
    by (simp add: eval_defs fcard_finsert_if)
  have h2: "fst (os_ReadDir ?v) = Inl ErrPermission"
    by (simp add: eval_defs)
  have t: "Unix (fst (time_Now (snd (os_ReadDir ?v)))) = 1577926800"
    by (simp add: eval_defs)
  have l: "logs ?v = []"
    by (simp add: ex_world_def)
  from generateNewBlogID_count_or_clock [of ?w] h1 have "fst (generateNewBlogID ?w) = word_of_nat 2 + 1"
    by blast
  then have g1: "fst (generateNewBlogID ?w) = 3"
    by simp
  from generateNewBlogID_count_or_clock [of ?v] h2 have "fst (generateNewBlogID ?v) = word_of_int (Unix (fst (time_Now (snd (os_ReadDir ?v))))) \<and>
      logs (snd (generateNewBlogID ?v)) = logs ?v @ [LogReadDirFailed ErrPermission]"
    by blast
  then have g2: "fst (generateNewBlogID ?v) = 1577926800 \<and> logs (snd (generateNewBlogID ?v)) = [LogReadDirFailed ErrPermission]"
    unfolding t l by simp
  from h1 h2 g1 g2 show ?thesis by blast
qed

text \<open>
  Claim C3, as amended. \<open>LoadBlog\<close> tells its failures apart: a read error naming the
  missing file when no entry exists, a read error with another cause when the entry cannot
  be read, an unmarshal error when the content is not a record. \<open>getBlogHandler\<close> does
  not: whatever the failure of \<open>LoadBlog\<close>, its answer is the same 404 with the message
  "Blog not found".
\<close>

theorem LoadBlog_errors_one_response:
  "(faults w (steps w) = NoFault \<and> fmlookup (files w) (filename i) = None \<longrightarrow>
      fst (LoadBlog w i) = Inl (ReadFailed ErrNotExist)) \<and>
   (faults w (steps w) \<noteq> NoFault \<longrightarrow>
      (\<exists>e. fst (LoadBlog w i) = Inl (ReadFailed e) \<and> e \<noteq> ErrNotExist)) \<and>
   (\<forall>d je. faults w (steps w) = NoFault \<and> fmlookup (files w) (filename i) = Some d \<and>
      json_Unmarshal d = Inl je \<longrightarrow>
      fst (LoadBlog w i) = Inl (UnmarshalFailed je)) \<and>
   (\<forall>e. getBlogID r = Inr i \<and> fst (LoadBlog w i) = Inl e \<longrightarrow>
      fst (getBlogHandler w r) = sendResponse False [] None ''Blog not found'' StatusNotFound)"
proof (intro conjI allI impI)
  assume "faults w (steps w) = NoFault \<and> fmlookup (files w) (filename i) = None"
  then show "fst (LoadBlog w i) = Inl (ReadFailed ErrNotExist)"
    by (simp add: LoadBlog_result)
next
  assume "faults w (steps w) \<noteq> NoFault"
  then show "\<exists>e. fst (LoadBlog w i) = Inl (ReadFailed e) \<and> e \<noteq> ErrNotExist"
    by (cases "faults w (steps w)") (simp_all add: LoadBlog_result fault_error_def)
next
  fix d je
  assume "faults w (steps w) = NoFault \<and> fmlookup (files w) (filename i) = Some d \<and>
      json_Unmarshal d = Inl je"
  then show "fst (LoadBlog w i) = Inl (UnmarshalFailed je)"
    by (simp add: LoadBlog_result)
next
  fix e
  assume "getBlogID r = Inr i \<and> fst (LoadBlog w i) = Inl e"
  then show "fst (getBlogHandler w r) = sendResponse False [] None ''Blog not found'' StatusNotFound"
    using getBlogHandler_failed [of r i w e] by simp
qed

text \<open>A missing entry, a refused read and a corrupt entry, each through \<open>LoadBlog\<close>.\<close>

theorem LoadBlog_errors_one_response_witness:
  "fst (LoadBlog (ex_world fmempty no_faults) 1) = Inl (ReadFailed ErrNotExist) \<and>
   fst (LoadBlog (ex_world (fmupd ''1.json'' Garbage fmempty) (fault_at 0 Denied)) 1) =
     Inl (ReadFailed ErrPermission) \<and>
   fst (LoadBlog (ex_world (fmupd ''1.json'' Garbage fmempty) no_faults) 1) =
     Inl (UnmarshalFailed SyntaxError) \<and>
   getBlogID (ex_request ''GET'' ''/api/blogs/1'' None) = Inr 1 \<and>
   fst (getBlogHandler (ex_world (fmupd ''1.json'' Garbage fmempty) (fault_at 0 Denied))
          (ex_request ''GET'' ''/api/blogs/1'' None)) =
     sendResponse False [] None ''Blog not found'' StatusNotFound"
proof -
  let ?r = "ex_request ''GET'' ''/api/blogs/1'' None"
  let ?w0 = "ex_world fmempty no_faults"
  let ?w1 = "ex_world (fmupd ''1.json'' Garbage fmempty) (fault_at 0 Denied)"
  let ?w2 = "ex_world (fmupd ''1.json'' Garbage fmempty) no_faults"
  have n: "filename 1 = ''1.json''"
    by (simp add: eval_defs)
  have a: "faults ?w0 (steps ?w0) = NoFault \<and> fmlookup (files ?w0) (filename 1) = None"
    by (simp add: ex_world_def no_faults_def)
  have b: "faults ?w1 (steps ?w1) \<noteq> NoFault"
    by (simp add: ex_world_def fault_at_def)
  have c: "faults ?w2 (steps ?w2) = NoFault \<and> fmlookup (files ?w2) (filename 1) = Some Garbage \<and>
      json_Unmarshal Garbage = Inl SyntaxError"
    by (simp add: ex_world_def no_faults_def n)
  have i: "getBlogID ?r = Inr 1"
    by (simp add: path_defs ex_request_def)
  have l: "fst (LoadBlog ?w1 1) = Inl (ReadFailed ErrPermission)"
    by (simp add: eval_defs)
  from LoadBlog_errors_one_response [of ?w0 1 ?r] a have 1: "fst (LoadBlog ?w0 1) = Inl (ReadFailed ErrNotExist)"
    by blast
  from LoadBlog_errors_one_response [of ?w2 1 ?r] c have 2: "fst (LoadBlog ?w2 1) = Inl (UnmarshalFailed SyntaxError)"
    by blast
  from LoadBlog_errors_one_response [of ?w1 1 ?r] i l
  have 3: "fst (getBlogHandler ?w1 ?r) = sendResponse False [] None ''Blog not found'' StatusNotFound"
    by blast
  from 1 2 3 i l show ?thesis by blast
qed

text \<open>
  Claim C3 as stated fails for the caller of the retrieval operation: \<open>LoadBlog\<close> returns
  different errors for a missing entry and for an entry with corrupt content, and the
  handler answers the two requests with the same response.
\<close>

theorem getBlogHandler_corrupt_as_missing:
  "fmlookup (files (ex_world fmempty no_faults)) (filename 1) = None \<and>
   fmlookup (files (ex_world (fmupd ''1.json'' Garbage fmempty) no_faults)) (filename 1) = Some Garbage \<and>
   fst (LoadBlog (ex_world fmempty no_faults) 1) = Inl (ReadFailed ErrNotExist) \<and>
   fst (LoadBlog (ex_world (fmupd ''1.json'' Garbage fmempty) no_faults) 1) =
     Inl (UnmarshalFailed SyntaxError) \<and>
   fst (getBlogHandler (ex_world fmempty no_faults) (ex_request ''GET'' ''/api/blogs/1'' None)) =
     sendResponse False [] None ''Blog not found'' StatusNotFound \<and>
   fst (getBlogHandler (ex_world (fmupd ''1.json'' Garbage fmempty) no_faults)
          (ex_request ''GET'' ''/api/blogs/1'' None)) =
     sendResponse False [] None ''Blog not found'' StatusNotFound"
  by (simp add: getBlogHandler_def path_defs eval_defs)

text \<open>
  Claim C4. After a \<open>Save\<close> that returned no error, a \<open>LoadBlog\<close> of the same identifier
  that can read the directory returns the record that was passed to \<open>Save\<close> with only
  created-at and updated-at filled in: created-at is the clock's reading when it was zero
  and is kept otherwise, updated-at is the clock's reading. This holds for every
  identifier, one never written before included.
\<close>

theorem Save_then_LoadBlog:
  assumes "Save w b = (None, b', w1)" and "faults w1 (steps w1) = NoFault"
  shows "fst (LoadBlog w1 (ID b)) = Inr b' \<and>
         b' = b\<lparr>CreatedTime := (if IsZero (CreatedTime b) then fst (time_Now w) else CreatedTime b),
                UpdatedTime := fst (time_Now (if IsZero (CreatedTime b) then snd (time_Now w) else w))\<rparr>"
proof -
  have b': "b' = fst (snd (Save w b))" and ok: "fst (Save w b) = None"
    and w1: "w1 = snd (snd (Save w b))"
    using assms(1) by simp_all
  have "files w1 = fmupd (filename (ID b)) (JSON b') (files w)"
    unfolding w1 b' using ok by (rule Save_ok_files)
  then have "fmlookup (files w1) (filename (ID b)) = Some (JSON b')"
    by simp
  then have "fst (LoadBlog w1 (ID b)) = Inr b'"
    using assms(2) by (simp add: LoadBlog_result)
  moreover have "b' = b\<lparr>CreatedTime := (if IsZero (CreatedTime b) then fst (time_Now w) else CreatedTime b),
                UpdatedTime := fst (time_Now (if IsZero (CreatedTime b) then snd (time_Now w) else w))\<rparr>"
    unfolding b' by (simp add: Save_blog time_Now_def tick_def)
  ultimately show ?thesis by blast
qed

theorem Save_then_LoadBlog_witness:
  "Save (ex_world fmempty no_faults) (ex_blog 7 0) =
     (None, (ex_blog 7 0)\<lparr>CreatedTime := ex_clock 0, UpdatedTime := ex_clock 1\<rparr>,
      \<lparr>files = fmupd ''7.json'' (JSON ((ex_blog 7 0)\<lparr>CreatedTime := ex_clock 0, UpdatedTime := ex_clock 1\<rparr>)) fmempty,
       steps = 3, wall = ex_clock, faults = no_faults, logs = []\<rparr>) \<and>
   fmlookup (files (ex_world fmempty no_faults)) (filename 7) = None \<and>
   fst (LoadBlog \<lparr>files = fmupd ''7.json'' (JSON ((ex_blog 7 0)\<lparr>CreatedTime := ex_clock 0, UpdatedTime := ex_clock 1\<rparr>)) fmempty,
       steps = 3, wall = ex_clock, faults = no_faults, logs = []\<rparr> 7) =
     Inr ((ex_blog 7 0)\<lparr>CreatedTime := ex_clock 0, UpdatedTime := ex_clock 1\<rparr>)"
proof -
  let ?b = "(ex_blog 7 0)\<lparr>CreatedTime := ex_clock 0, UpdatedTime := ex_clock 1\<rparr>"
  let ?w1 = "\<lparr>files = fmupd ''7.json'' (JSON ?b) fmempty,
       steps = 3, wall = ex_clock, faults = no_faults, logs = []\<rparr>"
  have h1: "Save (ex_world fmempty no_faults) (ex_blog 7 0) = (None, ?b, ?w1)"
    by (simp add: eval_defs)
  have h2: "faults ?w1 (steps ?w1) = NoFault"
    by (simp add: no_faults_def)
  have fresh: "fmlookup (files (ex_world fmempty no_faults)) (filename 7) = None"
    by (simp add: ex_world_def)
  have "fst (LoadBlog ?w1 (ID (ex_blog 7 0))) = Inr ?b"
    using Save_then_LoadBlog [OF h1 h2] by (rule conjunct1)
  moreover have "ID (ex_blog 7 0) = 7"
    by (simp add: ex_blog_def)
  ultimately have "fst (LoadBlog ?w1 7) = Inr ?b"
    by simp
  with h1 fresh show ?thesis by blast
qed




text \<open>
  Claim C6. When \<open>LoadBlog\<close> returns a record, \<open>getBlogHandler\<close> adds one to its view
  count (in \<^verbatim>\<open>int\<close> arithmetic; the signed value grows by exactly one below the largest
  \<^verbatim>\<open>int\<close>), calls \<open>Save\<close> on it, and answers 200 with the record as \<open>Save\<close> left it:
  the loaded record with the incremented count and the timestamps of the save. When
  \<open>Save\<close> returns no error the entry holds that record and nothing is logged; when it
  returns an error, the error is appended to the log and the answer is the same.
\<close>

theorem getBlogHandler_counts_view:
  assumes "getBlogID r = Inr i" and "LoadBlog w i = (Inr blog, w1)"
    and "Save w1 (blog\<lparr>ViewCount := ViewCount blog + 1\<rparr>) = (err, blog2, w2)"
  shows "\<exists>w'. getBlogHandler w r =
                 (sendResponse True ''Blog retrieved successfully'' (Some blog2) [] StatusOK, w') \<and>
           blog2 = blog\<lparr>ViewCount := ViewCount blog + 1, CreatedTime := CreatedTime blog2,
                        UpdatedTime := UpdatedTime blog2\<rparr> \<and>
           (sint (ViewCount blog) < 2 ^ 63 - 1 \<longrightarrow>
              sint (ViewCount blog2) = sint (ViewCount blog) + 1) \<and>
           (err = None \<longrightarrow>
              logs w' = logs w \<and>
              files w' = fmupd (filename (ID blog)) (JSON blog2) (files w)) \<and>
           (\<forall>e. err = Some e \<longrightarrow>
              w' = log_Printf w2 (LogViewCountFailed e) \<and>
              logs w' = logs w @ [LogViewCountFailed e])"
proof -
  let ?blog1 = "blog\<lparr>ViewCount := ViewCount blog + 1\<rparr>"
  let ?w' = "case err of Some e \<Rightarrow> log_Printf w2 (LogViewCountFailed e) | None \<Rightarrow> w2"
  have w1: "w1 = tick w"
    using assms(2) LoadBlog_world [of w i] by simp
  have blog2: "blog2 = fst (snd (Save w1 ?blog1))" and err: "err = fst (Save w1 ?blog1)"
    and w2: "w2 = snd (snd (Save w1 ?blog1))"
    using assms(3) by simp_all
  have resp: "getBlogHandler w r =
      (sendResponse True ''Blog retrieved successfully'' (Some blog2) [] StatusOK, ?w')"
    using assms by (rule getBlogHandler_loaded)
  have vc: "ViewCount blog2 = ViewCount blog + 1"
    unfolding blog2 by (simp add: Save_blog)
  have fields: "blog2 = blog\<lparr>ViewCount := ViewCount blog + 1, CreatedTime := CreatedTime blog2,
                        UpdatedTime := UpdatedTime blog2\<rparr>"
    by (subst (1 2 3) blog2) (simp add: Save_blog)
  have signed: "sint (ViewCount blog) < 2 ^ 63 - 1 \<longrightarrow>
              sint (ViewCount blog2) = sint (ViewCount blog) + 1"
    unfolding vc using sint_succ_64 by blast
  have logs2: "logs w2 = logs w"
    unfolding w2 by (simp add: Save_logs w1 tick_def)
  have ok: "err = None \<longrightarrow>
              logs ?w' = logs w \<and> files ?w' = fmupd (filename (ID blog)) (JSON blog2) (files w)"
  proof
    assume none: "err = None"
    then have "fst (Save w1 ?blog1) = None"
      by (simp add: err)
    then have "files w2 = fmupd (filename (ID ?blog1)) (JSON blog2) (files w1)"
      unfolding w2 blog2 by (rule Save_ok_files)
    then show "logs ?w' = logs w \<and> files ?w' = fmupd (filename (ID blog)) (JSON blog2) (files w)"
      using none logs2 by (simp add: w1 tick_def)
  qed
  have failed: "\<forall>e. err = Some e \<longrightarrow>
              ?w' = log_Printf w2 (LogViewCountFailed e) \<and>
              logs ?w' = logs w @ [LogViewCountFailed e]"
    using logs2 by (simp add: log_Printf_def)
  from resp fields signed ok failed show ?thesis by blast
qed

theorem getBlogHandler_counts_view_witness:
  "getBlogHandler (ex_world (fmupd ''7.json'' (JSON (ex_blog 7 5)) fmempty) (fault_at 2 Denied))
     (ex_request ''GET'' ''/api/blogs/7'' None) =
     (sendResponse True ''Blog retrieved successfully''
        (Some ((ex_blog 7 5)\<lparr>ViewCount := 1, UpdatedTime := ex_clock 1\<rparr>)) [] StatusOK,
      \<lparr>files = fmupd ''7.json'' (JSON (ex_blog 7 5)) fmempty, steps = 3, wall = ex_clock,
       faults = fault_at 2 Denied, logs = [LogViewCountFailed (WriteFailed ErrPermission)]\<rparr>)"
proof -
  let ?w = "ex_world (fmupd ''7.json'' (JSON (ex_blog 7 5)) fmempty) (fault_at 2 Denied)"
  let ?r = "ex_request ''GET'' ''/api/blogs/7'' None"
  let ?b2 = "(ex_blog 7 5)\<lparr>ViewCount := 1, UpdatedTime := ex_clock 1\<rparr>"
  let ?w2 = "\<lparr>files = fmupd ''7.json'' (JSON (ex_blog 7 5)) fmempty, steps = 3, wall = ex_clock,
       faults = fault_at 2 Denied, logs = []\<rparr>"
  have i: "getBlogID ?r = Inr 7"
    by (simp add: path_defs ex_request_def)
  have l: "LoadBlog ?w 7 = (Inr (ex_blog 7 5), tick ?w)"
    by (simp add: eval_defs)
  have s: "Save (tick ?w) ((ex_blog 7 5)\<lparr>ViewCount := ViewCount (ex_blog 7 5) + 1\<rparr>) =
             (Some (WriteFailed ErrPermission), ?b2, ?w2)"
    by (simp add: eval_defs)
  from getBlogHandler_counts_view [OF i l s] obtain w' where
    resp: "getBlogHandler ?w ?r =
       (sendResponse True ''Blog retrieved successfully'' (Some ?b2) [] StatusOK, w')"
    and w': "w' = log_Printf ?w2 (LogViewCountFailed (WriteFailed ErrPermission))"
    by blast
  show ?thesis
    unfolding resp w' by (simp add: log_Printf_def)
qed

text \<open>
  Claim C7. A create or update request whose parsed record has an empty title or an empty
  content is answered with status 400 and the message naming the missing field, whatever
  its method; the world comes back as it was: no call to the allocator or to \<open>Save\<close>
  was made, no entry was created or changed.
\<close>

theorem saveBlogHandler_rejects_empty:
  assumes "Body r = Some body" and "json_Unmarshal body = Inr blog"
    and "Title blog = [] \<or> Content blog = []"
  shows "saveBlogHandler w r =
           (sendResponse False [] None
              (if Title blog = [] then ''Title is required'' else ''Content is required'')
              StatusBadRequest, w)"
proof (cases "Title blog = []")
  case True
  with assms(1,2) show ?thesis
    by (simp add: saveBlogHandler_def)
next
  case False
  with assms(3) have "Content blog = []"
    by simp
  with False assms(1,2) show ?thesis
    by (simp add: saveBlogHandler_def)
qed

theorem saveBlogHandler_rejects_empty_witness:
  "saveBlogHandler (ex_world fmempty no_faults)
     (ex_request ''POST'' ''/api/blogs/''
        (Some (Object ((encode_Blog (ex_blog 0 0))\<lparr>json_title := Absent\<rparr>)))) =
     (sendResponse False [] None ''Title is required'' StatusBadRequest,
      ex_world fmempty no_faults) \<and>
   saveBlogHandler (ex_world fmempty no_faults)
     (ex_request ''PUT'' ''/api/blogs/7'' (Some (JSON ((ex_blog 7 0)\<lparr>Content := []\<rparr>)))) =
     (sendResponse False [] None ''Content is required'' StatusBadRequest,
      ex_world fmempty no_faults)"
proof -
  let ?w = "ex_world fmempty no_faults"
  let ?body1 = "Object ((encode_Blog (ex_blog 0 0))\<lparr>json_title := Absent\<rparr>)"
  let ?body2 = "JSON ((ex_blog 7 0)\<lparr>Content := []\<rparr>)"
  let ?r1 = "ex_request ''POST'' ''/api/blogs/'' (Some ?body1)"
  let ?r2 = "ex_request ''PUT'' ''/api/blogs/7'' (Some ?body2)"
  have b1: "Body ?r1 = Some ?body1" and b2: "Body ?r2 = Some ?body2"
    by (simp_all add: ex_request_def)
  have u1: "json_Unmarshal ?body1 = Inr ((ex_blog 0 0)\<lparr>Title := []\<rparr>)"
    by (simp add: encode_Blog_def decode_Blog_def well_typed_def omitempty_def ex_blog_def)
  have u2: "json_Unmarshal ?body2 = Inr ((ex_blog 7 0)\<lparr>Content := []\<rparr>)"
    by simp
  have t: "Title ((ex_blog 0 0)\<lparr>Title := []\<rparr>) = [] \<or> Content ((ex_blog 0 0)\<lparr>Title := []\<rparr>) = []"
    by simp
  have c: "Title ((ex_blog 7 0)\<lparr>Content := []\<rparr>) = [] \<or> Content ((ex_blog 7 0)\<lparr>Content := []\<rparr>) = []"
    by simp
  have nt: "Title ((ex_blog 7 0)\<lparr>Content := []\<rparr>) \<noteq> []"
    by (simp add: ex_blog_def)
  show ?thesis
    using saveBlogHandler_rejects_empty [OF b1 u1 t, of ?w]
      saveBlogHandler_rejects_empty [OF b2 u2 c, of ?w] nt
    by simp
qed

text \<open>
  Claim C8. \<open>LoadBlog\<close> leaves the entries of the storage directory as they are. Two
  calls in a row on the same identifier return the same result when neither read meets a
  fault; in any case, when both return a record it is the same record.
\<close>

theorem LoadBlog_twice:
  assumes "LoadBlog w i = (r1, w1)" and "LoadBlog w1 i = (r2, w2)"
  shows "files w1 = files w \<and> files w2 = files w \<and>
         (faults w (steps w) = NoFault \<and> faults w1 (steps w1) = NoFault \<longrightarrow> r2 = r1) \<and>
         (\<forall>b1 b2. r1 = Inr b1 \<and> r2 = Inr b2 \<longrightarrow> b2 = b1)"
proof -
  have w1: "w1 = tick w" and w2: "w2 = tick w1"
    using assms LoadBlog_world [of w i] LoadBlog_world [of w1 i] by simp_all
  have r1: "r1 = fst (LoadBlog w i)" and r2: "r2 = fst (LoadBlog w1 i)"
    using assms by simp_all
  have f1: "files w1 = files w" and f2: "files w2 = files w"
    by (simp_all add: w1 w2 tick_def)
  have same: "faults w (steps w) = NoFault \<and> faults w1 (steps w1) = NoFault \<longrightarrow> r2 = r1"
    by (simp add: r1 r2 LoadBlog_result f1)
  have "r1 = Inr b1 \<and> r2 = Inr b2 \<longrightarrow> b2 = b1" for b1 b2
    unfolding r1 r2 LoadBlog_result f1
    by (auto split: fault.splits option.splits sum.splits)
  with f1 f2 same show ?thesis by blast
qed

theorem LoadBlog_twice_witness:
  "LoadBlog (ex_world (fmupd ''7.json'' (JSON (ex_blog 7 5)) fmempty) no_faults) 7 =
     (Inr (ex_blog 7 5), tick (ex_world (fmupd ''7.json'' (JSON (ex_blog 7 5)) fmempty) no_faults)) \<and>
   LoadBlog (tick (ex_world (fmupd ''7.json'' (JSON (ex_blog 7 5)) fmempty) no_faults)) 7 =
     (Inr (ex_blog 7 5), tick (tick (ex_world (fmupd ''7.json'' (JSON (ex_blog 7 5)) fmempty) no_faults))) \<and>
   files (tick (tick (ex_world (fmupd ''7.json'' (JSON (ex_blog 7 5)) fmempty) no_faults))) =
     files (ex_world (fmupd ''7.json'' (JSON (ex_blog 7 5)) fmempty) no_faults)"
proof -
  have h1: "LoadBlog (ex_world (fmupd ''7.json'' (JSON (ex_blog 7 5)) fmempty) no_faults) 7 =
     (Inr (ex_blog 7 5), tick (ex_world (fmupd ''7.json'' (JSON (ex_blog 7 5)) fmempty) no_faults))"
    by (simp add: eval_defs)
  have h2: "LoadBlog (tick (ex_world (fmupd ''7.json'' (JSON (ex_blog 7 5)) fmempty) no_faults)) 7 =
     (Inr (ex_blog 7 5), tick (tick (ex_world (fmupd ''7.json'' (JSON (ex_blog 7 5)) fmempty) no_faults)))"
    by (simp add: eval_defs)
  show ?thesis
    using h1 h2 LoadBlog_twice [OF h1 h2] by simp
qed

text \<open>
  Claim C9. For a request that is not a PUT and whose body parses to a record with a title
  and a content, the identifier in the body has no effect: the handler does the same
  whatever that identifier is. When it answers with success, the record it returns and
  stores has the identifier \<open>generateNewBlogID\<close> returned, it is otherwise the body's
  record with the timestamps of the save, and it is stored under the name of that
  identifier.
\<close>

theorem create_ignores_body_id:
  assumes "Method r \<noteq> ''PUT''" and "Body r = Some body" and "json_Unmarshal body = Inr blog"
    and "Title blog \<noteq> []" and "Content blog \<noteq> []"
    and "json_Unmarshal body' = Inr (blog\<lparr>ID := j\<rparr>)"
  shows "saveBlogHandler w (r\<lparr>Body := Some body'\<rparr>) = saveBlogHandler w r \<and>
         (\<forall>resp w'. saveBlogHandler w r = (resp, w') \<and> Success resp \<longrightarrow>
            (\<exists>d. Data resp = Some d \<and>
                 ID d = fst (generateNewBlogID w) \<and>
                 d = blog\<lparr>ID := fst (generateNewBlogID w), CreatedTime := CreatedTime d,
                          UpdatedTime := UpdatedTime d\<rparr> \<and>
                 files w' = fmupd (filename (fst (generateNewBlogID w))) (JSON d) (files w)))"
proof (intro conjI allI impI)
  let ?i = "fst (generateNewBlogID w)"
  let ?w1 = "snd (generateNewBlogID w)"
  let ?s = "Save ?w1 (blog\<lparr>ID := ?i\<rparr>)"
  have r: "saveBlogHandler w r =
           (case ?s of
              (Some e, blog2, w2) \<Rightarrow>
                (sendResponse False [] None ''Failed to save blog'' StatusInternalServerError, w2)
            | (None, blog2, w2) \<Rightarrow>
                (sendResponse True ''Blog saved successfully'' (Some blog2) [] StatusOK, w2))"
    using assms(1-5) by (rule saveBlogHandler_create)
  have "saveBlogHandler w (r\<lparr>Body := Some body'\<rparr>) =
           (case Save ?w1 (blog\<lparr>ID := j\<rparr>\<lparr>ID := ?i\<rparr>) of
              (Some e, blog2, w2) \<Rightarrow>
                (sendResponse False [] None ''Failed to save blog'' StatusInternalServerError, w2)
            | (None, blog2, w2) \<Rightarrow>
                (sendResponse True ''Blog saved successfully'' (Some blog2) [] StatusOK, w2))"
    using assms by (intro saveBlogHandler_create [where body = body']) simp_all
  then show "saveBlogHandler w (r\<lparr>Body := Some body'\<rparr>) = saveBlogHandler w r"
    by (simp add: r)
  fix resp w'
  assume a: "saveBlogHandler w r = (resp, w') \<and> Success resp"
  obtain err d w2 where s: "?s = (err, d, w2)"
    by (cases ?s) auto
  have ok: "err = None"
    using a r s by (cases err) (auto simp add: sendResponse_def)
  then have resp: "resp = sendResponse True ''Blog saved successfully'' (Some d) [] StatusOK"
    and w': "w' = w2"
    using a r s by simp_all
  have d: "d = fst (snd ?s)" and w2: "w2 = snd (snd ?s)" and none: "fst ?s = None"
    using s ok by simp_all
  have 1: "Data resp = Some d"
    by (simp add: resp sendResponse_def)
  have 2: "ID d = ?i"
    unfolding d by (simp add: Save_blog)
  have 3: "d = blog\<lparr>ID := ?i, CreatedTime := CreatedTime d, UpdatedTime := UpdatedTime d\<rparr>"
    by (subst (1 2 3) d) (simp add: Save_blog)
  have "files w2 = fmupd (filename (ID (blog\<lparr>ID := ?i\<rparr>))) (JSON d) (files ?w1)"
    unfolding w2 d using none by (rule Save_ok_files)
  then have 4: "files w' = fmupd (filename ?i) (JSON d) (files w)"
    by (simp add: w' generateNewBlogID_files)
  from 1 2 3 4
  show "\<exists>d. Data resp = Some d \<and> ID d = ?i \<and>
          d = blog\<lparr>ID := ?i, CreatedTime := CreatedTime d, UpdatedTime := UpdatedTime d\<rparr> \<and>
          files w' = fmupd (filename ?i) (JSON d) (files w)"
    by blast
qed

theorem create_ignores_body_id_witness:
  "saveBlogHandler
     (ex_world (fmupd ''1.json'' (JSON (ex_blog 1 5)) (fmupd ''2.json'' (JSON (ex_blog 2 5)) fmempty)) no_faults)
     (ex_request ''POST'' ''/api/blogs/'' (Some (JSON (ex_blog 99 0)))) =
     (sendResponse True ''Blog saved successfully''
        (Some ((ex_blog 99 0)\<lparr>ID := 3, CreatedTime := ex_clock 1, UpdatedTime := ex_clock 2\<rparr>)) []
        StatusOK,
      \<lparr>files = fmupd ''3.json''
                 (JSON ((ex_blog 99 0)\<lparr>ID := 3, CreatedTime := ex_clock 1, UpdatedTime := ex_clock 2\<rparr>))
                 (fmupd ''1.json'' (JSON (ex_blog 1 5)) (fmupd ''2.json'' (JSON (ex_blog 2 5)) fmempty)),
       steps = 4, wall = ex_clock, faults = no_faults, logs = []\<rparr>) \<and>
   fst (generateNewBlogID
     (ex_world (fmupd ''1.json'' (JSON (ex_blog 1 5)) (fmupd ''2.json'' (JSON (ex_blog 2 5)) fmempty)) no_faults)) = 3 \<and>
   saveBlogHandler
     (ex_world (fmupd ''1.json'' (JSON (ex_blog 1 5)) (fmupd ''2.json'' (JSON (ex_blog 2 5)) fmempty)) no_faults)
     (ex_request ''POST'' ''/api/blogs/'' (Some (JSON ((ex_blog 99 0)\<lparr>ID := 12\<rparr>)))) =
   saveBlogHandler
     (ex_world (fmupd ''1.json'' (JSON (ex_blog 1 5)) (fmupd ''2.json'' (JSON (ex_blog 2 5)) fmempty)) no_faults)
     (ex_request ''POST'' ''/api/blogs/'' (Some (JSON (ex_blog 99 0))))"
proof -
  let ?w = "ex_world (fmupd ''1.json'' (JSON (ex_blog 1 5)) (fmupd ''2.json'' (JSON (ex_blog 2 5)) fmempty)) no_faults"
  let ?r = "ex_request ''POST'' ''/api/blogs/'' (Some (JSON (ex_blog 99 0)))"
  have m: "Method ?r \<noteq> ''PUT''" and b: "Body ?r = Some (JSON (ex_blog 99 0))"
    by (simp_all add: ex_request_def)
  have u: "json_Unmarshal (JSON (ex_blog 99 0)) = Inr (ex_blog 99 0)"
    and u': "json_Unmarshal (JSON ((ex_blog 99 0)\<lparr>ID := 12\<rparr>)) = Inr ((ex_blog 99 0)\<lparr>ID := 12\<rparr>)"
    by simp_all
  have t: "Title (ex_blog 99 0) \<noteq> []" and c: "Content (ex_blog 99 0) \<noteq> []"
    by (simp_all add: ex_blog_def)
  have g: "generateNewBlogID ?w = (3, tick ?w)"
    by (simp add: generateNewBlogID_def eval_defs fcard_finsert_if fcard_fempty)
  have run: "saveBlogHandler ?w ?r =
     (sendResponse True ''Blog saved successfully''
        (Some ((ex_blog 99 0)\<lparr>ID := 3, CreatedTime := ex_clock 1, UpdatedTime := ex_clock 2\<rparr>)) []
        StatusOK,
      \<lparr>files = fmupd ''3.json''
                 (JSON ((ex_blog 99 0)\<lparr>ID := 3, CreatedTime := ex_clock 1, UpdatedTime := ex_clock 2\<rparr>))
                 (fmupd ''1.json'' (JSON (ex_blog 1 5)) (fmupd ''2.json'' (JSON (ex_blog 2 5)) fmempty)),
       steps = 4, wall = ex_clock, faults = no_faults, logs = []\<rparr>)"
    unfolding saveBlogHandler_create [OF m b u t c] g
    by (simp add: eval_defs)
  have "saveBlogHandler ?w (?r\<lparr>Body := Some (JSON ((ex_blog 99 0)\<lparr>ID := 12\<rparr>))\<rparr>) =
          saveBlogHandler ?w ?r"
    using create_ignores_body_id [OF m b u t c u', of ?w] by (rule conjunct1)
  then have same: "saveBlogHandler ?w (ex_request ''POST'' ''/api/blogs/'' (Some (JSON ((ex_blog 99 0)\<lparr>ID := 12\<rparr>)))) =
          saveBlogHandler ?w ?r"
    by (simp add: ex_request_def)
  from g have "fst (generateNewBlogID ?w) = 3"
    by simp
  with run same show ?thesis by blast
qed

text \<open>
  Claim C10, as amended. A PUT request whose body parses to a record with a title and a
  content, and whose path carries the identifier of the body, is never answered 404,
  whether or not an entry exists for the identifier. When \<open>Save\<close> returns no error the
  answer is 200 and the entry holds the body's record with updated-at stamped to the
  clock's reading, and with created-at stamped to the clock's reading (updated-at then
  taking the next one) only when the body's created-at is zero: a created-at the body
  carries is kept. When \<open>Save\<close> returns an error the answer is the 500 "Failed to save
  blog".
\<close>

theorem update_is_upsert:
  assumes "Method r = ''PUT''" and "Body r = Some body" and "json_Unmarshal body = Inr blog"
    and "Title blog \<noteq> []" and "Content blog \<noteq> []" and "getBlogID r = Inr (ID blog)"
  shows "\<exists>resp w'. saveBlogHandler w r = (resp, w') \<and>
           StatusCode resp \<noteq> StatusNotFound \<and>
           (fst (Save w blog) = None \<longrightarrow>
              (\<exists>d. resp = sendResponse True ''Blog saved successfully'' (Some d) [] StatusOK \<and>
                   d = blog\<lparr>CreatedTime := (if IsZero (CreatedTime blog) then fst (time_Now w)
                                               else CreatedTime blog),
                            UpdatedTime := fst (time_Now (if IsZero (CreatedTime blog)
                                                          then snd (time_Now w) else w))\<rparr> \<and>
                   files w' = fmupd (filename (ID blog)) (JSON d) (files w))) \<and>
           (\<forall>e. fst (Save w blog) = Some e \<longrightarrow>
              resp = sendResponse False [] None ''Failed to save blog'' StatusInternalServerError)"
proof -
  obtain err d w2 where s: "Save w blog = (err, d, w2)"
    by (cases "Save w blog") auto
  then have d: "d = fst (snd (Save w blog))" and w2: "w2 = snd (snd (Save w blog))"
    and err: "err = fst (Save w blog)"
    by simp_all
  let ?resp = "case err of
      Some e \<Rightarrow> sendResponse False [] None ''Failed to save blog'' StatusInternalServerError
    | None \<Rightarrow> sendResponse True ''Blog saved successfully'' (Some d) [] StatusOK"
  have run: "saveBlogHandler w r = (?resp, w2)"
    unfolding saveBlogHandler_update [OF assms] s by (cases err) simp_all
  have status: "StatusCode ?resp \<noteq> StatusNotFound"
    by (cases err)
      (simp_all add: sendResponse_def StatusOK_def StatusNotFound_def StatusInternalServerError_def)
  have stamped: "d = blog\<lparr>CreatedTime := (if IsZero (CreatedTime blog) then fst (time_Now w)
                                               else CreatedTime blog),
                            UpdatedTime := fst (time_Now (if IsZero (CreatedTime blog)
                                                          then snd (time_Now w) else w))\<rparr>"
    unfolding d by (simp add: Save_blog time_Now_def tick_def)
  have ok: "fst (Save w blog) = None \<longrightarrow>
              (\<exists>d. ?resp = sendResponse True ''Blog saved successfully'' (Some d) [] StatusOK \<and>
                   d = blog\<lparr>CreatedTime := (if IsZero (CreatedTime blog) then fst (time_Now w)
                                               else CreatedTime blog),
                            UpdatedTime := fst (time_Now (if IsZero (CreatedTime blog)
                                                          then snd (time_Now w) else w))\<rparr> \<and>
                   files w2 = fmupd (filename (ID blog)) (JSON d) (files w))"
  proof
    assume none: "fst (Save w blog) = None"
    then have "files w2 = fmupd (filename (ID blog)) (JSON d) (files w)"
      unfolding w2 d by (rule Save_ok_files)
    moreover have "?resp = sendResponse True ''Blog saved successfully'' (Some d) [] StatusOK"
      using none by (simp add: err)
    ultimately show "\<exists>d. ?resp = sendResponse True ''Blog saved successfully'' (Some d) [] StatusOK \<and>
                   d = blog\<lparr>CreatedTime := (if IsZero (CreatedTime blog) then fst (time_Now w)
                                               else CreatedTime blog),
                            UpdatedTime := fst (time_Now (if IsZero (CreatedTime blog)
                                                          then snd (time_Now w) else w))\<rparr> \<and>
                   files w2 = fmupd (filename (ID blog)) (JSON d) (files w)"
      using stamped by blast
  qed
  have failed: "\<forall>e. fst (Save w blog) = Some e \<longrightarrow>
              ?resp = sendResponse False [] None ''Failed to save blog'' StatusInternalServerError"
    by (simp add: err)
  show ?thesis
  proof (intro exI conjI)
    show "saveBlogHandler w r = (?resp, w2)"
      by (rule run)
  qed (rule status ok failed)+
qed

text \<open>A PUT for an identifier with no entry, the body carrying no created-at.\<close>

theorem update_is_upsert_witness:
  "saveBlogHandler (ex_world fmempty no_faults)
     (ex_request ''PUT'' ''/api/blogs/5'' (Some (JSON (ex_blog 5 0)))) =
     (sendResponse True ''Blog saved successfully''
        (Some ((ex_blog 5 0)\<lparr>CreatedTime := ex_clock 0, UpdatedTime := ex_clock 1\<rparr>)) [] StatusOK,
      \<lparr>files = fmupd ''5.json'' (JSON ((ex_blog 5 0)\<lparr>CreatedTime := ex_clock 0, UpdatedTime := ex_clock 1\<rparr>)) fmempty,
       steps = 3, wall = ex_clock, faults = no_faults, logs = []\<rparr>) \<and>
   fmlookup (files (ex_world fmempty no_faults)) (filename 5) = None \<and>
   StatusCode (fst (saveBlogHandler (ex_world fmempty no_faults)
     (ex_request ''PUT'' ''/api/blogs/5'' (Some (JSON (ex_blog 5 0)))))) \<noteq> StatusNotFound"
proof -
  let ?w = "ex_world fmempty no_faults"
  let ?r = "ex_request ''PUT'' ''/api/blogs/5'' (Some (JSON (ex_blog 5 0)))"
  have m: "Method ?r = ''PUT''" and b: "Body ?r = Some (JSON (ex_blog 5 0))"
    by (simp_all add: ex_request_def)
  have u: "json_Unmarshal (JSON (ex_blog 5 0)) = Inr (ex_blog 5 0)"
    by simp
  have t: "Title (ex_blog 5 0) \<noteq> []" and c: "Content (ex_blog 5 0) \<noteq> []"
    by (simp_all add: ex_blog_def)
  have i: "getBlogID ?r = Inr (ID (ex_blog 5 0))"
    by (simp add: path_defs ex_request_def ex_blog_def)
  have run: "saveBlogHandler ?w ?r =
     (sendResponse True ''Blog saved successfully''
        (Some ((ex_blog 5 0)\<lparr>CreatedTime := ex_clock 0, UpdatedTime := ex_clock 1\<rparr>)) [] StatusOK,
      \<lparr>files = fmupd ''5.json'' (JSON ((ex_blog 5 0)\<lparr>CreatedTime := ex_clock 0, UpdatedTime := ex_clock 1\<rparr>)) fmempty,
       steps = 3, wall = ex_clock, faults = no_faults, logs = []\<rparr>)"
    unfolding saveBlogHandler_update [OF m b u t c i]
    by (simp add: eval_defs)
  have fresh: "fmlookup (files ?w) (filename 5) = None"
    by (simp add: ex_world_def)
  from update_is_upsert [OF m b u t c i, of ?w]
  have "StatusCode (fst (saveBlogHandler ?w ?r)) \<noteq> StatusNotFound"
    by auto
  with run fresh show ?thesis by blast
qed

text \<open>
  Claim C10 as stated fails on a body that carries a created-at: the record created for an
  identifier that had no entry keeps the body's created-at, a day before the clock's
  reading.
\<close>

theorem update_keeps_body_created_at:
  "fmlookup (files (ex_world fmempty no_faults)) (filename 5) = None \<and>
   getBlogID (ex_request ''PUT'' ''/api/blogs/5'' (Some (JSON (ex_blog 5 63713437200000000000)))) =
     Inr (ID (ex_blog 5 63713437200000000000)) \<and>
   saveBlogHandler (ex_world fmempty no_faults)
     (ex_request ''PUT'' ''/api/blogs/5'' (Some (JSON (ex_blog 5 63713437200000000000)))) =
     (sendResponse True ''Blog saved successfully''
        (Some ((ex_blog 5 63713437200000000000)\<lparr>UpdatedTime := ex_clock 0\<rparr>)) [] StatusOK,
      \<lparr>files = fmupd ''5.json'' (JSON ((ex_blog 5 63713437200000000000)\<lparr>UpdatedTime := ex_clock 0\<rparr>)) fmempty,
       steps = 2, wall = ex_clock, faults = no_faults, logs = []\<rparr>) \<and>
   CreatedTime ((ex_blog 5 63713437200000000000)\<lparr>UpdatedTime := ex_clock 0\<rparr>) =
     utc 63713437200000000000 \<and>
   fst (time_Now (ex_world fmempty no_faults)) = ex_clock 0 \<and>
   instant (ex_clock 0) = 63713523600000000000 \<and>
   CreatedTime ((ex_blog 5 63713437200000000000)\<lparr>UpdatedTime := ex_clock 0\<rparr>) \<noteq>
     fst (time_Now (ex_world fmempty no_faults))"
  by (simp add: saveBlogHandler_def path_defs eval_defs)

end
